theory Spec2Isabelle
  imports Main
begin

section \<open>The built-in Map that Group extends\<close>

text \<open>
  \<^verbatim>\<open>class Group<K, V> extends Map<K, V>\<close> (src/utils/Group.ts) inherits \<^verbatim>\<open>set\<close>,
  \<^verbatim>\<open>delete\<close>, \<^verbatim>\<open>get\<close>, \<^verbatim>\<open>has\<close>, \<^verbatim>\<open>size\<close> and the iterators from the
  ECMAScript Map. A Map is a list of entries in insertion order with at most one entry
  per key; the state of a Group is that list. Keys are compared with HOL equality
  (SameValueZero on strings and on numbers other than NaN and the two zeros).
\<close>

type_synonym ('k, 'v) group = "('k \<times> 'v) list"

definition wf_group :: "('k, 'v) group \<Rightarrow> bool" where
  "wf_group g = distinct (map fst g)"

definition Map_has :: "'k \<Rightarrow> ('k, 'v) group \<Rightarrow> bool" where
  "Map_has key g = (key \<in> set (map fst g))"

definition Map_get :: "'k \<Rightarrow> ('k, 'v) group \<Rightarrow> 'v option" where
  "Map_get key g = map_of g key"

text \<open>
  \<^verbatim>\<open>set(key, value)\<close>: an existing key keeps its position and takes the new value;
  a new key is appended.
\<close>

definition Map_set :: "'k \<Rightarrow> 'v \<Rightarrow> ('k, 'v) group \<Rightarrow> ('k, 'v) group" where
  "Map_set key val g =
     (if Map_has key g then map (\<lambda>(k, v). if k = key then (k, val) else (k, v)) g
      else g @ [(key, val)])"

text \<open>\<^verbatim>\<open>delete(key)\<close> returns whether the key was present, and the entries left.\<close>

definition Map_delete :: "'k \<Rightarrow> ('k, 'v) group \<Rightarrow> bool \<times> ('k, 'v) group" where
  "Map_delete key g = (Map_has key g, filter (\<lambda>(k, v). k \<noteq> key) g)"

definition Map_size :: "('k, 'v) group \<Rightarrow> nat" where
  "Map_size g = length g"

definition keys :: "('k, 'v) group \<Rightarrow> 'k list" where
  "keys g = map fst g"

definition entries :: "('k, 'v) group \<Rightarrow> ('k \<times> 'v) list" where
  "entries g = g"

section \<open>Group (src/utils/Group.ts)\<close>

text \<open>\<^verbatim>\<open>toArray(): return Array.from(this.values())\<close>\<close>

definition toArray :: "('k, 'v) group \<Rightarrow> 'v list" where
  "toArray g = map snd g"

text \<open>
  Modelled from the spec: \<^verbatim>\<open>EMPTY_GROUP_VALUE\<close> is imported from
  \<^verbatim>\<open>constants/constants.json\<close>, which is not among the sources; the spec says that
  \<^verbatim>\<open>empty\<close> holds iff \<^verbatim>\<open>size() == 0\<close>.
\<close>

definition EMPTY_GROUP_VALUE :: nat where
  "EMPTY_GROUP_VALUE = 0"

text \<open>\<^verbatim>\<open>get empty(): return this.size === EMPTY_GROUP_VALUE\<close>\<close>

definition empty_group :: "('k, 'v) group \<Rightarrow> bool" where
  "empty_group g = (Map_size g = EMPTY_GROUP_VALUE)"

subsection \<open>Sequences of set and delete calls\<close>

datatype ('k, 'v) map_op = Set 'k 'v | Delete 'k

fun apply_op :: "('k, 'v) group \<Rightarrow> ('k, 'v) map_op \<Rightarrow> ('k, 'v) group" where
  "apply_op g (Set k v) = Map_set k v g"
| "apply_op g (Delete k) = snd (Map_delete k g)"

definition run_ops :: "('k, 'v) map_op list \<Rightarrow> ('k, 'v) group \<Rightarrow> ('k, 'v) group" where
  "run_ops ops g = foldl apply_op g ops"

subsection \<open>Array methods the Group methods delegate to\<close>

text \<open>
  Errors are values. The code declares no error class of its own: every failure of the
  methods modelled here is an exception of the runtime or a rejected request.
\<close>

datatype error =
    ReduceOfEmptyArray
      \<comment> \<open>TypeError of \<^verbatim>\<open>reduce\<close>/\<^verbatim>\<open>reduceRight\<close> on an empty array without initial value\<close>
  | PropertyOfUndefined
      \<comment> \<open>TypeError of a member access on \<^verbatim>\<open>undefined\<close>\<close>
  | RequestRejected
      \<comment> \<open>the promise of an HTTP request was rejected\<close>

text \<open>\<^verbatim>\<open>xs.at(i)\<close>: a negative index counts from the end; out of range is undefined.\<close>

definition Array_at :: "'a list \<Rightarrow> int \<Rightarrow> 'a option" where
  "Array_at xs i =
     (let len = int (length xs);
          k = (if 0 \<le> i then i else len + i)
      in if k < 0 \<or> len \<le> k then None else Some (xs ! nat k))"

text \<open>
  \<^verbatim>\<open>xs.slice(start, end)\<close> on integer arguments; \<^verbatim>\<open>None\<close> is an omitted end.
  The number -0 is the integer 0, so \<^verbatim>\<open>slice(-0)\<close> starts at the beginning.
\<close>

definition Array_slice :: "'a list \<Rightarrow> int \<Rightarrow> int option \<Rightarrow> 'a list" where
  "Array_slice xs start fin =
     (let len = int (length xs);
          k = (if start < 0 then max (len + start) 0 else min start len);
          relativeEnd = (case fin of None \<Rightarrow> len | Some e \<Rightarrow> e);
          final = (if relativeEnd < 0 then max (len + relativeEnd) 0 else min relativeEnd len)
      in take (nat (final - k)) (drop (nat k) xs))"

text \<open>
  \<^verbatim>\<open>xs.filter(predicate)\<close>: the callback receives the element, its index and the array.
  Callbacks are pure functions here; \<^verbatim>\<open>thisArg\<close> is not modelled.
\<close>

definition Array_filter :: "('a \<Rightarrow> nat \<Rightarrow> 'a list \<Rightarrow> bool) \<Rightarrow> 'a list \<Rightarrow> 'a list" where
  "Array_filter predicate xs =
     map snd (filter (\<lambda>(i, x). predicate x i xs) (enumerate 0 xs))"

text \<open>
  \<^verbatim>\<open>xs.reduce(callbackfn)\<close> without initial value: the first element is the start
  value and the callback runs on the others from left to right; \<^verbatim>\<open>reduceRight\<close>
  starts from the last element and runs from right to left.
\<close>

definition Array_reduce ::
  "('a \<Rightarrow> 'a \<Rightarrow> nat \<Rightarrow> 'a list \<Rightarrow> 'a) \<Rightarrow> 'a list \<Rightarrow> error + 'a" where
  "Array_reduce callbackfn xs =
     (case enumerate 0 xs of
        [] \<Rightarrow> Inl ReduceOfEmptyArray
      | (_, x) # rest \<Rightarrow> Inr (foldl (\<lambda>acc (i, y). callbackfn acc y i xs) x rest))"

definition Array_reduceRight ::
  "('a \<Rightarrow> 'a \<Rightarrow> nat \<Rightarrow> 'a list \<Rightarrow> 'a) \<Rightarrow> 'a list \<Rightarrow> error + 'a" where
  "Array_reduceRight callbackfn xs =
     (case rev (enumerate 0 xs) of
        [] \<Rightarrow> Inl ReduceOfEmptyArray
      | (_, x) # rest \<Rightarrow> Inr (foldl (\<lambda>acc (i, y). callbackfn acc y i xs) x rest))"

text \<open>
  \<^verbatim>\<open>Object.fromEntries(es)\<close>: the own properties of the new object in creation
  order; a key that occurs again overwrites the value of its property. Property keys
  are the Group's keys (strings in this repository); the engine's enumeration of
  array-index keys before the others is outside this model.
\<close>

type_synonym ('k, 'v) object = "('k \<times> 'v) list"

definition Object_fromEntries :: "('k \<times> 'v) list \<Rightarrow> ('k, 'v) object" where
  "Object_fromEntries es = foldl (\<lambda>obj (k, v). Map_set k v obj) [] es"

subsection \<open>reduce, reduceRight, first, last\<close>

text \<open>\<^verbatim>\<open>reduce(callbackfn): return this.toArray().reduce(callbackfn)\<close>\<close>

definition reduce ::
  "('v \<Rightarrow> 'v \<Rightarrow> nat \<Rightarrow> 'v list \<Rightarrow> 'v) \<Rightarrow> ('k, 'v) group \<Rightarrow> error + 'v" where
  "reduce callbackfn g = Array_reduce callbackfn (toArray g)"

text \<open>\<^verbatim>\<open>reduceRight(callbackfn): return this.toArray().reduceRight(callbackfn)\<close>\<close>

definition reduceRight ::
  "('v \<Rightarrow> 'v \<Rightarrow> nat \<Rightarrow> 'v list \<Rightarrow> 'v) \<Rightarrow> ('k, 'v) group \<Rightarrow> error + 'v" where
  "reduceRight callbackfn g = Array_reduceRight callbackfn (toArray g)"

text \<open>
  What \<^verbatim>\<open>first\<close> and \<^verbatim>\<open>last\<close> return at run time: an object built by
  \<^verbatim>\<open>Object.fromEntries\<close>, or the result of \<^verbatim>\<open>entries.at(0)\<close>, which is an entry
  (a pair of key and value) or undefined.
\<close>

datatype ('k, 'v) picked = Undefined | Entry "'k \<times> 'v" | Object "('k, 'v) object"

text \<open>
  \<^verbatim>\<open>first(amount?)\<close>:
  \<^verbatim>\<open>typeof amount !== "undefined" ? Object.fromEntries(entries.slice(0, amount)) : entries.at(0)\<close>
\<close>

definition first :: "int option \<Rightarrow> ('k, 'v) group \<Rightarrow> ('k, 'v) picked" where
  "first amount g =
     (let es = entries g
      in case amount of
           Some n \<Rightarrow> Object (Object_fromEntries (Array_slice es 0 (Some n)))
         | None \<Rightarrow> (case Array_at es 0 of None \<Rightarrow> Undefined | Some e \<Rightarrow> Entry e))"

text \<open>
  \<^verbatim>\<open>last(amount?)\<close>:
  \<^verbatim>\<open>typeof amount !== "undefined" ? Object.fromEntries(entries.slice(-amount)) : entries.at(0)\<close>
\<close>

definition last_group :: "int option \<Rightarrow> ('k, 'v) group \<Rightarrow> ('k, 'v) picked" where
  "last_group amount g =
     (let es = entries g
      in case amount of
           Some n \<Rightarrow> Object (Object_fromEntries (Array_slice es (- n) None))
         | None \<Rightarrow> (case Array_at es 0 of None \<Rightarrow> Undefined | Some e \<Rightarrow> Entry e))"

subsection \<open>merge and sweep: methods that mutate this and return it\<close>

text \<open>
  Both methods return \<^verbatim>\<open>this\<close>, and \<^verbatim>\<open>merge\<close> reads a second Group that may be the
  same object. Groups therefore live in a store: a reference names an object, the store
  gives the entries each object holds now. A method takes the store and returns the
  reference it returns together with the store it leaves.
\<close>

type_synonym ref = nat

type_synonym ('k, 'v) store = "ref \<Rightarrow> ('k, 'v) group"

text \<open>
  \<^verbatim>\<open>merge(group)\<close>:
  \<^verbatim>\<open>group.forEach((value, key) => this.set(key, value)); return this\<close>.
  When \<^verbatim>\<open>group\<close> is \<^verbatim>\<open>this\<close> every \<^verbatim>\<open>set\<close> hits a key that is present, so the
  entries visited are those the Group held at the call, as for a distinct object.
\<close>

definition merge :: "ref \<Rightarrow> ref \<Rightarrow> ('k, 'v) store \<Rightarrow> ref \<times> ('k, 'v) store" where
  "merge this grp h =
     (let h' = foldl (\<lambda>h (key, val). h(this := Map_set key val (h this))) h (entries (h grp))
      in (this, h'))"

text \<open>
  \<^verbatim>\<open>sweep(predicate)\<close>:
  \<^verbatim>\<open>const filtered = [...this.entries()].filter(predicate, thisArg);\<close>
  \<^verbatim>\<open>filtered.forEach(([key]) => this.delete(key)); return this\<close>
\<close>

definition sweep ::
  "(('k \<times> 'v) \<Rightarrow> nat \<Rightarrow> ('k \<times> 'v) list \<Rightarrow> bool) \<Rightarrow> ref \<Rightarrow> ('k, 'v) store
     \<Rightarrow> ref \<times> ('k, 'v) store" where
  "sweep predicate this h =
     (let filtered = Array_filter predicate (entries (h this));
          h' = foldl (\<lambda>h (key, val). h(this := snd (Map_delete key (h this)))) h filtered
      in (this, h'))"

section \<open>RoleManager\<close>

text \<open>
  \<^verbatim>\<open>Snowflake\<close> is a string. A \<^verbatim>\<open>RoleResolvable\<close> (declared in \<^verbatim>\<open>types\<close>, not
  among the sources) is read through its \<^verbatim>\<open>id\<close> and \<^verbatim>\<open>position\<close> only; positions
  are integers. The manager holds the cache, a Group from identifier to Role, and the
  guild whose identifier goes into the routes; \<^verbatim>\<open>'role\<close> is the Role class, which is
  not among the sources.
\<close>

type_synonym Snowflake = string

record RoleResolvable =
  id_r :: Snowflake
  position :: int

record 'role RoleManager =
  cache :: "(Snowflake, 'role) group"
  guild_id :: Snowflake

text \<open>
  \<^verbatim>\<open>comparePosition(role1, role2)\<close>:
  \<^verbatim>\<open>role1.position > role2.position ? role1.position - role2.position : role2.position - role1.position\<close>
\<close>

definition comparePosition :: "RoleResolvable \<Rightarrow> RoleResolvable \<Rightarrow> int" where
  "comparePosition role1 role2 =
     (if position role1 > position role2 then position role1 - position role2
      else position role2 - position role1)"

text \<open>
  \<^verbatim>\<open>async delete(role, reason?)\<close>:
  \<^verbatim>\<open>await api.delete(GuildRole(this.guild.id, role.id), ...); this.cache.delete(role.id)\<close>.
  The request is a parameter: given the guild, the role and the reason it is fulfilled
  or rejected. A rejection leaves the cache as it was; the method returns the outcome
  and the manager it leaves.
\<close>

definition delete ::
  "(Snowflake \<Rightarrow> Snowflake \<Rightarrow> string option \<Rightarrow> error + unit) \<Rightarrow> 'role RoleManager
     \<Rightarrow> RoleResolvable \<Rightarrow> string option \<Rightarrow> (error + unit) \<times> 'role RoleManager" where
  "delete api_delete this role reason =
     (case api_delete (guild_id this) (id_r role) reason of
        Inl e \<Rightarrow> (Inl e, this)
      | Inr u \<Rightarrow> (Inr (), this\<lparr>cache := snd (Map_delete (id_r role) (cache this))\<rparr>))"

text \<open>
  \<^verbatim>\<open>async edit(role, options)\<close>:
  \<^verbatim>\<open>const data = await this.cache.get(role.id)!.edit(options); return data\<close>.
  The \<^verbatim>\<open>!\<close> is erased at compile time: when \<^verbatim>\<open>get\<close> returns undefined the call
  of \<^verbatim>\<open>.edit\<close> throws and the promise is rejected. \<^verbatim>\<open>Role.edit\<close> is a parameter.
\<close>

definition edit ::
  "('role \<Rightarrow> 'opts \<Rightarrow> error + 'role) \<Rightarrow> 'role RoleManager \<Rightarrow> RoleResolvable \<Rightarrow> 'opts
     \<Rightarrow> error + 'role" where
  "edit Role_edit this role options =
     (case Map_get (id_r role) (cache this) of
        None \<Rightarrow> Inl PropertyOfUndefined
      | Some cached \<Rightarrow> Role_edit cached options)"

section \<open>BasicInteraction\<close>

text \<open>
  \<^verbatim>\<open>IInteractionData\<close> and \<^verbatim>\<open>RawInteractionData\<close> are interfaces that are not among the
  sources: the records below hold the properties the class reads. A property of a raw
  object is present (\<^verbatim>\<open>Some\<close>) or absent (\<^verbatim>\<open>None\<close>); \<^verbatim>\<open>'j\<close> is the type of the
  untyped raw sub-payloads. Enum values are numbers.
\<close>

record IInteractionData =
  data_component_type :: "nat option"
  data_type :: "nat option"
  data_target_id :: "Snowflake option"

record 'j RawInteractionData =
  raw_id :: "Snowflake option"
  raw_application_id :: "Snowflake option"
  raw_type :: "nat option"
  raw_data :: "IInteractionData option"
  raw_guild :: "'j option"
  raw_channel_id :: "Snowflake option"
  raw_member :: "'j option"
  raw_user :: "'j option"
  raw_token :: "string option"
  raw_version :: "nat option"
  raw_message :: "'j option"
  raw_app_permissions :: "string option"
  raw_locale :: "string option"
  raw_guild_locale :: "string option"

text \<open>
  A field declared with an entity class holds, at run time, whatever was assigned last:
  an entity built by its constructor, or a raw sub-payload.
\<close>

datatype ('j, 'e) slot = Raw 'j | Entity 'e

text \<open>
  The fields of a BasicInteraction. \<^verbatim>\<open>creation_timestamp\<close> and \<^verbatim>\<open>creation_date\<close> are
  floating-point values computed from the identifier and are left out, as is the
  \<^verbatim>\<open>client\<close> of the base class.
\<close>

record ('j, 'g, 'm, 'u, 'msg) BasicInteraction =
  id_i :: "Snowflake option"
  application_id :: "Snowflake option"
  type_i :: "nat option"
  data :: "IInteractionData option"
  guild :: "('j, 'g) slot"
  channel_id :: "Snowflake option"
  member_i :: "('j, 'm) slot option"
  user :: "('j, 'u) slot option"
  token :: "string option"
  version :: "nat option"
  message :: "('j, 'msg) slot option"
  app_permissions :: "string option"
  locale_i :: "string option"
  guild_locale :: "string option"
  component_type :: "nat option"

text \<open>
  The entity classes \<^verbatim>\<open>Guild\<close>, \<^verbatim>\<open>GuildMember\<close>, \<^verbatim>\<open>User\<close> and \<^verbatim>\<open>Message\<close> are not
  among the sources: their constructors, closed over the client, and the \<^verbatim>\<open>id\<close> of a
  Guild are parameters. A constructor returns the entity or throws (\<^verbatim>\<open>Inl\<close>).
\<close>

record ('j, 'x, 'g, 'm, 'u, 'msg) entities =
  Guild_new :: "'j option \<Rightarrow> 'x + 'g"
  Guild_id :: "'g \<Rightarrow> Snowflake option"
  GuildMember_new :: "'j \<Rightarrow> Snowflake option \<Rightarrow> 'x + 'm"
  User_new :: "'j \<Rightarrow> 'x + 'u"
  Message_new :: "'j \<Rightarrow> 'x + 'msg"

text \<open>\<^verbatim>\<open>data.f ? new C(data.f, ...) : void 0\<close>\<close>

definition construct_if_present :: "('j \<Rightarrow> 'x + 'e) \<Rightarrow> 'j option \<Rightarrow> 'x + ('j, 'e) slot option" where
  "construct_if_present new raw =
     (case raw of
        None \<Rightarrow> Inr None
      | Some j \<Rightarrow> (case new j of Inl x \<Rightarrow> Inl x | Inr e \<Rightarrow> Inr (Some (Entity e))))"

text \<open>
  \<^verbatim>\<open>Object.assign(this, data)\<close> assigns every own property of \<^verbatim>\<open>data\<close> to the
  property of the same name of \<^verbatim>\<open>this\<close>; a property that \<^verbatim>\<open>data\<close> lacks is left as
  it is.
\<close>

definition assign_property :: "'a option \<Rightarrow> 'a option \<Rightarrow> 'a option" where
  "assign_property target source = (case source of None \<Rightarrow> target | Some v \<Rightarrow> Some v)"

definition assign_slot :: "('j, 'e) slot option \<Rightarrow> 'j option \<Rightarrow> ('j, 'e) slot option" where
  "assign_slot target source = (case source of None \<Rightarrow> target | Some j \<Rightarrow> Some (Raw j))"

definition Object_assign ::
  "('j, 'g, 'm, 'u, 'msg) BasicInteraction \<Rightarrow> 'j RawInteractionData
     \<Rightarrow> ('j, 'g, 'm, 'u, 'msg) BasicInteraction" where
  "Object_assign this d =
     \<lparr> id_i = assign_property (id_i this) (raw_id d),
       application_id = assign_property (application_id this) (raw_application_id d),
       type_i = assign_property (type_i this) (raw_type d),
       data = assign_property (data this) (raw_data d),
       guild = (case raw_guild d of None \<Rightarrow> guild this | Some j \<Rightarrow> Raw j),
       channel_id = assign_property (channel_id this) (raw_channel_id d),
       member_i = assign_slot (member_i this) (raw_member d),
       user = assign_slot (user this) (raw_user d),
       token = assign_property (token this) (raw_token d),
       version = assign_property (version this) (raw_version d),
       message = assign_slot (message this) (raw_message d),
       app_permissions = assign_property (app_permissions this) (raw_app_permissions d),
       locale_i = assign_property (locale_i this) (raw_locale d),
       guild_locale = assign_property (guild_locale this) (raw_guild_locale d),
       component_type = component_type this \<rparr>"

text \<open>
  The fields as the assignments of the constructor leave them, before the final
  \<^verbatim>\<open>Object.assign\<close>: the scalars are copied, the guild is built unconditionally, the
  member, user and message are built when their raw sub-payload is present, and
  \<^verbatim>\<open>component_type\<close> is \<^verbatim>\<open>this.data?.component_type\<close>.
\<close>

definition assigned_fields ::
  "('j, 'x, 'g, 'm, 'u, 'msg) entities \<Rightarrow> 'j RawInteractionData
     \<Rightarrow> 'x + ('j, 'g, 'm, 'u, 'msg) BasicInteraction" where
  "assigned_fields E d =
     (case Guild_new E (raw_guild d) of
        Inl x \<Rightarrow> Inl x
      | Inr g \<Rightarrow>
     (case construct_if_present (\<lambda>j. GuildMember_new E j (Guild_id E g)) (raw_member d) of
        Inl x \<Rightarrow> Inl x
      | Inr m \<Rightarrow>
     (case construct_if_present (User_new E) (raw_user d) of
        Inl x \<Rightarrow> Inl x
      | Inr u \<Rightarrow>
     (case construct_if_present (Message_new E) (raw_message d) of
        Inl x \<Rightarrow> Inl x
      | Inr msg \<Rightarrow>
          Inr \<lparr> id_i = raw_id d,
                application_id = raw_application_id d,
                type_i = raw_type d,
                data = raw_data d,
                guild = Entity g,
                channel_id = raw_channel_id d,
                member_i = m,
                user = u,
                token = raw_token d,
                version = raw_version d,
                message = msg,
                app_permissions = raw_app_permissions d,
                locale_i = raw_locale d,
                guild_locale = raw_guild_locale d,
                component_type =
                  (case raw_data d of None \<Rightarrow> None | Some dd \<Rightarrow> data_component_type dd) \<rparr>))))"

text \<open>
  \<^verbatim>\<open>constructor(data, client)\<close>: the assignments, then \<^verbatim>\<open>Object.assign(this, data)\<close>.
  The body checks nothing and throws nothing itself.
\<close>

definition BasicInteraction_new ::
  "('j, 'x, 'g, 'm, 'u, 'msg) entities \<Rightarrow> 'j RawInteractionData
     \<Rightarrow> 'x + ('j, 'g, 'm, 'u, 'msg) BasicInteraction" where
  "BasicInteraction_new E d =
     (case assigned_fields E d of Inl x \<Rightarrow> Inl x | Inr this \<Rightarrow> Inr (Object_assign this d))"

subsection \<open>Classification predicates\<close>

text \<open>
  The enum \<^verbatim>\<open>ComponentTypes\<close> (\<^verbatim>\<open>props/ComponentTypes\<close>) is not among the sources:
  the number of each member is a parameter. \<^verbatim>\<open>ContextMenuTypes\<close> has the values of
  the enum of that name in \<^verbatim>\<open>types/app-commands.ts\<close>: \<^verbatim>\<open>User = 2, Message\<close>.
\<close>

record ComponentTypes =
  Button :: nat
  StringSelectMenu :: nat
  TextInput :: nat
  UserSelectMenu :: nat
  RoleSelectMenu :: nat
  MentionableSelectMenu :: nat
  ChannelSelectMenu :: nat

definition ContextMenuTypes_User :: nat where
  "ContextMenuTypes_User = 2"

definition ContextMenuTypes_Message :: nat where
  "ContextMenuTypes_Message = 3"

text \<open>Truthiness of an optional string: present and not empty.\<close>

definition truthy :: "string option \<Rightarrow> bool" where
  "truthy s = (case s of None \<Rightarrow> False | Some str \<Rightarrow> str \<noteq> [])"

text \<open>\<^verbatim>\<open>this.data?.target_id\<close>\<close>

definition target_id :: "('j, 'g, 'm, 'u, 'msg) BasicInteraction \<Rightarrow> Snowflake option" where
  "target_id this = (case data this of None \<Rightarrow> None | Some dd \<Rightarrow> data_target_id dd)"

definition isButton :: "ComponentTypes \<Rightarrow> ('j, 'g, 'm, 'u, 'msg) BasicInteraction \<Rightarrow> bool" where
  "isButton CT this = (component_type this = Some (Button CT))"

definition isChannelSelectMenu ::
  "ComponentTypes \<Rightarrow> ('j, 'g, 'm, 'u, 'msg) BasicInteraction \<Rightarrow> bool" where
  "isChannelSelectMenu CT this = (component_type this = Some (ChannelSelectMenu CT))"

definition isStringSelectMenu ::
  "ComponentTypes \<Rightarrow> ('j, 'g, 'm, 'u, 'msg) BasicInteraction \<Rightarrow> bool" where
  "isStringSelectMenu CT this = (component_type this = Some (StringSelectMenu CT))"

definition isUserSelectMenu ::
  "ComponentTypes \<Rightarrow> ('j, 'g, 'm, 'u, 'msg) BasicInteraction \<Rightarrow> bool" where
  "isUserSelectMenu CT this = (component_type this = Some (UserSelectMenu CT))"

definition isRoleSelectMenu ::
  "ComponentTypes \<Rightarrow> ('j, 'g, 'm, 'u, 'msg) BasicInteraction \<Rightarrow> bool" where
  "isRoleSelectMenu CT this = (component_type this = Some (RoleSelectMenu CT))"

definition isMentionableSelectMenu ::
  "ComponentTypes \<Rightarrow> ('j, 'g, 'm, 'u, 'msg) BasicInteraction \<Rightarrow> bool" where
  "isMentionableSelectMenu CT this = (component_type this = Some (MentionableSelectMenu CT))"

text \<open>
  \<^verbatim>\<open>isAnySelectMenu()\<close>: \<^verbatim>\<open>[StringSelectMenu, ChannelSelectMenu, MentionableSelectMenu,\<close>
  \<^verbatim>\<open>RoleSelectMenu, UserSelectMenu].includes(this.component_type!)\<close>; undefined is not
  in an array of numbers.
\<close>

definition isAnySelectMenu ::
  "ComponentTypes \<Rightarrow> ('j, 'g, 'm, 'u, 'msg) BasicInteraction \<Rightarrow> bool" where
  "isAnySelectMenu CT this =
     (case component_type this of
        None \<Rightarrow> False
      | Some c \<Rightarrow> c \<in> set [StringSelectMenu CT, ChannelSelectMenu CT, MentionableSelectMenu CT,
                            RoleSelectMenu CT, UserSelectMenu CT])"

definition isTextInput :: "ComponentTypes \<Rightarrow> ('j, 'g, 'm, 'u, 'msg) BasicInteraction \<Rightarrow> bool" where
  "isTextInput CT this = (component_type this = Some (TextInput CT))"

text \<open>
  \<^verbatim>\<open>isMessageContextMenu()\<close>:
  \<^verbatim>\<open>this.data?.target_id && this.data.type === ContextMenuTypes.Message ? true : false\<close>
\<close>

definition isMessageContextMenu :: "('j, 'g, 'm, 'u, 'msg) BasicInteraction \<Rightarrow> bool" where
  "isMessageContextMenu this =
     (if truthy (target_id this)
         \<and> (case data this of None \<Rightarrow> False | Some dd \<Rightarrow> data_type dd = Some ContextMenuTypes_Message)
      then True else False)"

definition isUserContextMenu :: "('j, 'g, 'm, 'u, 'msg) BasicInteraction \<Rightarrow> bool" where
  "isUserContextMenu this =
     (if truthy (target_id this)
         \<and> (case data this of None \<Rightarrow> False | Some dd \<Rightarrow> data_type dd = Some ContextMenuTypes_User)
      then True else False)"

text \<open>\<^verbatim>\<open>isAnyContextMenu(): return this.data?.target_id ? true : false\<close>\<close>

definition isAnyContextMenu :: "('j, 'g, 'm, 'u, 'msg) BasicInteraction \<Rightarrow> bool" where
  "isAnyContextMenu this = (if truthy (target_id this) then True else False)"

section \<open>Inputs used in the evaluations below\<close>

text \<open>
  Entity constructors that never throw, built from plain functions; constructors that
  tag the raw sub-payload with the name of their class; and two raw payloads: one
  without identifier and primary type, and an application command in a guild (primary
  type 2), invoked by a member on the target "99" of a user context menu.
\<close>

definition infallible ::
  "('j option \<Rightarrow> 'g) \<Rightarrow> ('g \<Rightarrow> Snowflake option) \<Rightarrow> ('j \<Rightarrow> Snowflake option \<Rightarrow> 'm)
     \<Rightarrow> ('j \<Rightarrow> 'u) \<Rightarrow> ('j \<Rightarrow> 'msg) \<Rightarrow> ('j, 'x, 'g, 'm, 'u, 'msg) entities" where
  "infallible G gid M U Msg =
     \<lparr> Guild_new = (\<lambda>j. Inr (G j)),
       Guild_id = gid,
       GuildMember_new = (\<lambda>j g. Inr (M j g)),
       User_new = (\<lambda>j. Inr (U j)),
       Message_new = (\<lambda>j. Inr (Msg j)) \<rparr>"

definition example_entities ::
  "(string, error, string \<times> string option, string \<times> string, string \<times> string,
    string \<times> string) entities" where
  "example_entities =
     \<lparr> Guild_new = (\<lambda>j. Inr (''Guild'', j)),
       Guild_id = (\<lambda>g. snd g),
       GuildMember_new = (\<lambda>j gid. Inr (''GuildMember'', j)),
       User_new = (\<lambda>j. Inr (''User'', j)),
       Message_new = (\<lambda>j. Inr (''Message'', j)) \<rparr>"

definition payload_without_id_and_type :: "string RawInteractionData" where
  "payload_without_id_and_type =
     \<lparr> raw_id = None, raw_application_id = Some ''7'', raw_type = None, raw_data = None,
       raw_guild = None, raw_channel_id = None, raw_member = None, raw_user = None,
       raw_token = Some ''t'', raw_version = Some 1, raw_message = None,
       raw_app_permissions = None, raw_locale = None, raw_guild_locale = None \<rparr>"

definition payload_with_member :: "string RawInteractionData" where
  "payload_with_member =
     \<lparr> raw_id = Some ''1'', raw_application_id = Some ''7'', raw_type = Some 2,
       raw_data = Some \<lparr> data_component_type = None, data_type = Some 2,
                          data_target_id = Some ''99'' \<rparr>,
       raw_guild = Some ''g'', raw_channel_id = None, raw_member = Some ''m'', raw_user = None,
       raw_token = Some ''t'', raw_version = Some 1, raw_message = None,
       raw_app_permissions = None, raw_locale = None, raw_guild_locale = None \<rparr>"

section \<open>Properties of the Map operations\<close>

lemma keys_Map_set:
  "map fst (Map_set key val g) = (if Map_has key g then map fst g else map fst g @ [key])"
proof -
  have "map fst (map (\<lambda>(k, v). if k = key then (k, val) else (k, v)) g) = map fst g"
    by (induction g) auto
  then show ?thesis by (simp add: Map_set_def)
qed

lemma keys_Map_delete: "map fst (snd (Map_delete key g)) = filter (\<lambda>k. k \<noteq> key) (map fst g)"
  by (induction g) (auto simp: Map_delete_def)

lemma wf_Map_set: "wf_group g \<Longrightarrow> wf_group (Map_set key val g)"
  by (simp add: wf_group_def keys_Map_set Map_has_def)

lemma wf_Map_delete: "wf_group g \<Longrightarrow> wf_group (snd (Map_delete key g))"
  by (simp add: wf_group_def keys_Map_delete)

lemma wf_apply_op: "wf_group g \<Longrightarrow> wf_group (apply_op g x)"
  by (cases x) (simp_all add: wf_Map_set wf_Map_delete)

lemma wf_run_ops: "wf_group g \<Longrightarrow> wf_group (run_ops ops g)"
  unfolding run_ops_def
  by (induction ops arbitrary: g) (simp_all add: wf_apply_op)

lemma wf_size_card: "wf_group g \<Longrightarrow> Map_size g = card (set (keys g))"
  using distinct_card [of "map fst g"]
  by (simp add: wf_group_def Map_size_def keys_def)

lemma size_Map_set_present: "Map_has key g \<Longrightarrow> Map_size (Map_set key val g) = Map_size g"
  by (simp add: Map_set_def Map_size_def)

lemma size_Map_set_absent: "\<not> Map_has key g \<Longrightarrow> Map_size (Map_set key val g) = Suc (Map_size g)"
  by (simp add: Map_set_def Map_size_def)

lemma map_of_replace:
  "map_of (map (\<lambda>(a, b). if a = k then (a, v) else (a, b)) g) k'
     = (if k' = k then (if k \<in> fst ` set g then Some v else None) else map_of g k')"
  by (induction g) (force split: if_splits)+

lemma get_Map_set: "Map_get k' (Map_set k v g) = (if k' = k then Some v else Map_get k' g)"
proof (cases "Map_has k g")
  case True
  then show ?thesis
    by (simp add: Map_get_def Map_set_def Map_has_def map_of_replace)
next
  case False
  then have "map_of g k = None"
    by (simp add: Map_has_def map_of_eq_None_iff)
  with False show ?thesis
    by (simp add: Map_get_def Map_set_def map_add_def split: option.splits)
qed

lemma foldl_store_this:
  "foldl (\<lambda>h e. h(this := F e (h this))) h xs = h(this := foldl (\<lambda>g e. F e g) (h this) xs)"
  by (induction xs arbitrary: h) auto

lemma foldl_Map_delete:
  "foldl (\<lambda>g (key, val). snd (Map_delete key g)) g xs = filter (\<lambda>e. fst e \<notin> fst ` set xs) g"
proof (induction xs arbitrary: g)
  case Nil
  then show ?case by simp
next
  case (Cons x xs)
  have "filter (\<lambda>e. fst e \<notin> fst ` set xs) (filter (\<lambda>(k, v). k \<noteq> fst x) g)
        = filter (\<lambda>e. fst e \<notin> fst ` set (x # xs)) g"
    by (induction g) auto
  with Cons show ?case
    by (cases x) (simp add: Map_delete_def)
qed

lemma in_Array_filter:
  "x \<in> set (Array_filter p xs) \<longleftrightarrow> (\<exists>i < length xs. xs ! i = x \<and> p x i xs)"
proof -
  have "x \<in> set (Array_filter p xs) \<longleftrightarrow> (\<exists>i. (i, x) \<in> set (enumerate 0 xs) \<and> p x i xs)"
    unfolding Array_filter_def by (simp add: image_iff)
  also have "\<dots> \<longleftrightarrow> (\<exists>i < length xs. xs ! i = x \<and> p x i xs)"
    by (simp add: in_set_enumerate_eq)
  finally show ?thesis .
qed

lemma filter_complement:
  assumes "distinct (map fst g)"
  shows "filter (\<lambda>e. fst e \<notin> fst ` set (Array_filter p g)) g
         = map snd (filter (\<lambda>(i, e). \<not> p e i g) (enumerate 0 g))"
proof -
  have key: "(fst e \<notin> fst ` set (Array_filter p g)) = (\<not> p e i g)"
    if "(i, e) \<in> set (enumerate 0 g)" for i e
  proof -
    from that have i: "i < length g" and e: "g ! i = e"
      by (auto simp: in_set_enumerate_eq)
    have same: "j = i" if "j < length g" "fst (g ! j) = fst (g ! i)" for j
      using that i assms nth_eq_iff_index_eq [of "map fst g" j i] by simp
    have "fst e \<in> fst ` set (Array_filter p g) \<longleftrightarrow>
          (\<exists>x \<in> set (Array_filter p g). fst e = fst x)"
      by (rule image_iff)
    also have "\<dots> \<longleftrightarrow> (\<exists>j < length g. fst (g ! j) = fst e \<and> p (g ! j) j g)"
      unfolding Bex_def in_Array_filter by metis
    also have "\<dots> \<longleftrightarrow> p e i g"
    proof
      assume "\<exists>j < length g. fst (g ! j) = fst e \<and> p (g ! j) j g"
      then obtain j where j: "j < length g" "fst (g ! j) = fst e" "p (g ! j) j g"
        by blast
      with same [of j] e have "j = i" by simp
      with j e show "p e i g" by simp
    next
      assume "p e i g"
      with i e show "\<exists>j < length g. fst (g ! j) = fst e \<and> p (g ! j) j g"
        by blast
    qed
    finally show ?thesis by simp
  qed
  have "filter ((\<lambda>e. fst e \<notin> fst ` set (Array_filter p g)) \<circ> snd) (enumerate 0 g)
        = filter (\<lambda>(i, e). \<not> p e i g) (enumerate 0 g)"
  proof (rule filter_cong [OF refl])
    fix x
    assume x: "x \<in> set (enumerate 0 g)"
    obtain i e where ie: "x = (i, e)" by (cases x)
    with x key [of i e] show "((\<lambda>e. fst e \<notin> fst ` set (Array_filter p g)) \<circ> snd) x
        = (case x of (i, e) \<Rightarrow> \<not> p e i g)"
      by simp
  qed
  then have "filter (\<lambda>e. fst e \<notin> fst ` set (Array_filter p g)) (map snd (enumerate 0 g))
        = map snd (filter (\<lambda>(i, e). \<not> p e i g) (enumerate 0 g))"
    by (simp only: filter_map)
  then show ?thesis by simp
qed

lemma Array_filter_plain: "Array_filter (\<lambda>e i arr. P e) xs = filter P xs"
proof -
  have "map snd (filter (\<lambda>(i, x). P x) (enumerate n xs)) = filter P xs" for n
    by (induction xs arbitrary: n) auto
  then show ?thesis by (simp add: Array_filter_def)
qed

lemma sweep_store:
  "sweep predicate this h =
     (this, h(this := filter (\<lambda>e. fst e \<notin> fst ` set (Array_filter predicate (h this))) (h this)))"
proof -
  have "foldl (\<lambda>h (key, val). h(this := snd (Map_delete key (h this)))) h xs
        = h(this := foldl (\<lambda>g (key, val). snd (Map_delete key g)) (h this) xs)" for xs
    using foldl_store_this [of this "\<lambda>e g. snd (Map_delete (fst e) g)" h xs]
    by (simp add: case_prod_unfold)
  then show ?thesis
    by (simp add: sweep_def entries_def foldl_Map_delete)
qed

lemma foldl_Map_set_get:
  "distinct (map fst es) \<Longrightarrow>
   Map_get k (foldl (\<lambda>g (key, val). Map_set key val g) g es)
     = (case map_of es k of Some v \<Rightarrow> Some v | None \<Rightarrow> Map_get k g)"
proof (induction es arbitrary: g)
  case Nil
  then show ?case by simp
next
  case (Cons e es)
  obtain a b where e: "e = (a, b)" by (cases e)
  from Cons.prems e have "map_of es a = None"
    by (simp add: map_of_eq_None_iff)
  with Cons e show ?case
    by (auto simp: get_Map_set split: option.splits)
qed

lemma merge_store:
  "merge this grp h = (this, h(this := foldl (\<lambda>g (key, val). Map_set key val g) (h this) (h grp)))"
  using foldl_store_this [of this "\<lambda>e g. Map_set (fst e) (snd e) g" h "h grp"]
  by (simp add: merge_def entries_def case_prod_unfold)

lemma Object_fromEntries_distinct:
  assumes "distinct (map fst es)"
  shows "Object_fromEntries es = es"
proof -
  have "foldl (\<lambda>obj (k, v). Map_set k v obj) acc es = acc @ es"
    if "distinct (map fst (acc @ es))" for acc
    using that
  proof (induction es arbitrary: acc)
    case Nil
    then show ?case by simp
  next
    case (Cons e es)
    obtain a b where e: "e = (a, b)" by (cases e)
    from Cons.prems e have "\<not> Map_has a acc"
      by (auto simp: Map_has_def)
    then have "Map_set a b acc = acc @ [(a, b)]"
      by (simp add: Map_set_def)
    with Cons.IH [of "acc @ [(a, b)]"] Cons.prems e show ?case
      by simp
  qed
  from this [of "[]"] assms show ?thesis
    by (simp add: Object_fromEntries_def)
qed

lemma first_amount:
  assumes "wf_group g" "0 \<le> n"
  shows "first (Some n) g = Object (take (nat n) g)"
proof -
  have "distinct (map fst (take (nat n) g))"
    using assms(1) by (simp add: wf_group_def take_map [symmetric] distinct_take)
  moreover have "Array_slice g 0 (Some n) = take (nat n) g"
    using assms(2) by (simp add: Array_slice_def Let_def min_def)
  ultimately show ?thesis
    by (simp add: first_def entries_def Object_fromEntries_distinct)
qed

lemma last_amount:
  assumes "wf_group g" "0 < n"
  shows "last_group (Some n) g = Object (drop (length g - nat n) g)"
proof -
  have "distinct (map fst (drop (length g - nat n) g))"
    using assms(1) by (simp add: wf_group_def drop_map [symmetric] distinct_drop)
  moreover have "Array_slice g (- n) None = drop (length g - nat n) g"
    using assms(2) by (auto simp: Array_slice_def Let_def max_def nat_diff_distrib')
  ultimately show ?thesis
    by (simp add: last_group_def entries_def Object_fromEntries_distinct)
qed

section \<open>Claims about Group\<close>

text \<open>
  C1. Starting from any Group, after any sequence of \<^verbatim>\<open>set\<close> and \<^verbatim>\<open>delete\<close> calls
  the size is the number of distinct keys present; \<^verbatim>\<open>set\<close> with a key that is already
  present does not increase the size; and \<^verbatim>\<open>empty\<close> is true exactly when the size
  is 0.
\<close>

theorem size_counts_distinct_keys:
  assumes "wf_group g"
  shows "Map_size (run_ops ops g) = card (set (keys (run_ops ops g)))
       \<and> (Map_has key (run_ops ops g) \<longrightarrow>
            Map_size (Map_set key val (run_ops ops g)) \<le> Map_size (run_ops ops g))
       \<and> (empty_group (run_ops ops g) \<longleftrightarrow> Map_size (run_ops ops g) = 0)"
proof -
  have "wf_group (run_ops ops g)"
    using assms by (rule wf_run_ops)
  then have "Map_size (run_ops ops g) = card (set (keys (run_ops ops g)))"
    by (rule wf_size_card)
  moreover have "Map_has key (run_ops ops g) \<longrightarrow>
      Map_size (Map_set key val (run_ops ops g)) \<le> Map_size (run_ops ops g)"
    by (simp add: size_Map_set_present)
  moreover have "empty_group (run_ops ops g) \<longleftrightarrow> Map_size (run_ops ops g) = 0"
    by (simp add: empty_group_def EMPTY_GROUP_VALUE_def)
  ultimately show ?thesis by blast
qed

theorem size_counts_distinct_keys_witness:
  "wf_group ([] :: (string, nat) group)
   \<and> Map_size (run_ops [Set ''a'' (10::nat), Set ''b'' 20, Set ''a'' 30, Delete ''b'', Set ''c'' 40] [])
       = (2::nat)
   \<and> card (set (keys (run_ops [Set ''a'' (10::nat), Set ''b'' 20, Set ''a'' 30, Delete ''b'', Set ''c'' 40] [])))
       = 2
   \<and> Map_has ''a'' (run_ops [Set ''a'' (10::nat), Set ''b'' 20, Set ''a'' 30, Delete ''b'', Set ''c'' 40] [])
   \<and> Map_size (Map_set ''a'' 90 (run_ops [Set ''a'' (10::nat), Set ''b'' 20, Set ''a'' 30, Delete ''b'', Set ''c'' 40] []))
       \<le> 2
   \<and> \<not> empty_group (run_ops [Set ''a'' (10::nat), Set ''b'' 20, Set ''a'' 30, Delete ''b'', Set ''c'' 40] [])"
proof -
  have w: "wf_group ([] :: (string, nat) group)"
    by (simp add: wf_group_def)
  have r: "run_ops [Set ''a'' (10::nat), Set ''b'' 20, Set ''a'' 30, Delete ''b'', Set ''c'' 40] []
           = [(''a'', 30), (''c'', 40)]"
    by (simp add: run_ops_def Map_set_def Map_delete_def Map_has_def)
  show ?thesis
    using w size_counts_distinct_keys [OF w,
        of "[Set ''a'' (10::nat), Set ''b'' 20, Set ''a'' 30, Delete ''b'', Set ''c'' 40]" "''a''" 90]
    by (simp add: r Map_size_def Map_has_def)
qed

text \<open>
  C2. \<^verbatim>\<open>sweep\<close> returns \<^verbatim>\<open>this\<close> and leaves in it exactly the entries for which
  the predicate, called with the entry, its index and the array of the snapshot taken
  before any deletion, is false, in their original order; for a predicate \<open>P\<close> of the
  entry alone these are the entries that do not satisfy \<open>P\<close>. No other Group changes.
\<close>

theorem sweep_deletes_matching:
  assumes "wf_group (h this)"
  shows "fst (sweep predicate this h) = this
       \<and> snd (sweep predicate this h) this
           = map snd (filter (\<lambda>(i, e). \<not> predicate e i (h this)) (enumerate 0 (h this)))
       \<and> snd (sweep (\<lambda>e i arr. P e) this h) this = filter (\<lambda>e. \<not> P e) (h this)
       \<and> (\<forall>r. r \<noteq> this \<longrightarrow> snd (sweep predicate this h) r = h r)"
proof -
  have d: "distinct (map fst (h this))"
    using assms by (simp add: wf_group_def)
  have "map snd (filter (\<lambda>(i, e). \<not> P e) (enumerate n xs)) = filter (\<lambda>e. \<not> P e) xs"
    for n and xs :: "('a \<times> 'b) list"
    by (induction xs arbitrary: n) auto
  then show ?thesis
    by (simp add: sweep_store filter_complement [OF d])
qed

theorem sweep_deletes_matching_witness:
  "wf_group [(1::nat, ''a''), (2, ''b''), (3, ''c''), (4, ''d'')]
   \<and> fst (sweep (\<lambda>e i arr. even (fst e)) 0 (\<lambda>r. [(1::nat, ''a''), (2, ''b''), (3, ''c''), (4, ''d'')])) = 0
   \<and> snd (sweep (\<lambda>e i arr. even (fst e)) 0 (\<lambda>r. [(1::nat, ''a''), (2, ''b''), (3, ''c''), (4, ''d'')])) 0
       = [(1, ''a''), (3, ''c'')]
   \<and> snd (sweep (\<lambda>e i arr. even (fst e)) 0 (\<lambda>r. [(1::nat, ''a''), (2, ''b''), (3, ''c''), (4, ''d'')])) 1
       = [(1, ''a''), (2, ''b''), (3, ''c''), (4, ''d'')]"
proof -
  have w: "wf_group [(1::nat, ''a''), (2, ''b''), (3, ''c''), (4, ''d'')]"
    by (simp add: wf_group_def)
  show ?thesis
    using w sweep_deletes_matching
      [where h = "\<lambda>r. [(1::nat, ''a''), (2, ''b''), (3, ''c''), (4, ''d'')]" and this = 0
         and predicate = "\<lambda>e i arr. even (fst e)" and P = "\<lambda>e. even (fst e)"]
    by simp
qed

text \<open>
  C4. \<^verbatim>\<open>A.merge(B)\<close> returns \<^verbatim>\<open>A\<close>; afterwards every key of \<^verbatim>\<open>B\<close> maps in \<^verbatim>\<open>A\<close>
  to the value it has in \<^verbatim>\<open>B\<close>, and every other key maps in \<^verbatim>\<open>A\<close> to what it
  mapped to before.
\<close>

theorem merge_upserts:
  assumes "wf_group (h B)"
  shows "fst (merge A B h) = A
       \<and> (\<forall>k. Map_has k (h B) \<longrightarrow> Map_get k (snd (merge A B h) A) = Map_get k (h B))
       \<and> (\<forall>k. \<not> Map_has k (h B) \<longrightarrow> Map_get k (snd (merge A B h) A) = Map_get k (h A))"
proof -
  have d: "distinct (map fst (h B))"
    using assms by (simp add: wf_group_def)
  have "Map_get k (snd (merge A B h) A) = Map_get k (h B)" if "Map_has k (h B)" for k
  proof -
    from that obtain v where v: "map_of (h B) k = Some v"
      by (auto simp: Map_has_def dest: weak_map_of_SomeI)
    then have "Map_get k (h B) = Some v"
      by (simp add: Map_get_def)
    with v show ?thesis
      by (simp add: merge_store foldl_Map_set_get [OF d])
  qed
  moreover have "Map_get k (snd (merge A B h) A) = Map_get k (h A)" if "\<not> Map_has k (h B)" for k
  proof -
    from that have "map_of (h B) k = None"
      by (simp add: Map_has_def map_of_eq_None_iff)
    then show ?thesis
      by (simp add: merge_store foldl_Map_set_get [OF d])
  qed
  ultimately show ?thesis
    by (simp add: merge_store)
qed

theorem merge_upserts_witness:
  "wf_group [(2::nat, ''B''), (3, ''c'')]
   \<and> fst (merge 0 1 (\<lambda>r. if r = 0 then [(1::nat, ''a''), (2, ''b'')] else [(2, ''B''), (3, ''c'')])) = 0
   \<and> Map_has 2 [(2::nat, ''B''), (3, ''c'')]
   \<and> Map_get 2 (snd (merge 0 1 (\<lambda>r. if r = 0 then [(1::nat, ''a''), (2, ''b'')] else [(2, ''B''), (3, ''c'')])) 0)
       = Some ''B''
   \<and> \<not> Map_has 1 [(2::nat, ''B''), (3, ''c'')]
   \<and> Map_get 1 (snd (merge 0 1 (\<lambda>r. if r = 0 then [(1::nat, ''a''), (2, ''b'')] else [(2, ''B''), (3, ''c'')])) 0)
       = Some ''a''"
proof -
  have w: "wf_group [(2::nat, ''B''), (3, ''c'')]"
    by (simp add: wf_group_def)
  have has: "Map_has 2 [(2::nat, ''B''), (3, ''c'')]" "\<not> Map_has 1 [(2::nat, ''B''), (3, ''c'')]"
    by (simp_all add: Map_has_def)
  show ?thesis
    using w has merge_upserts
      [where h = "\<lambda>r. if r = 0 then [(1::nat, ''a''), (2, ''b'')] else [(2, ''B''), (3, ''c'')]"
         and A = 0 and B = 1]
    by (simp add: Map_get_def)
qed

text \<open>
  C5. \<^verbatim>\<open>reduce\<close> and \<^verbatim>\<open>reduceRight\<close> on a Group without entries fail with the error
  of reducing an empty array; on values 1, 2, 3 \<^verbatim>\<open>reduce\<close> with addition returns 6;
  on values "a", "b", "c" \<^verbatim>\<open>reduceRight\<close> with concatenation returns "cba".
\<close>

theorem reduce_empty_fails:
  "(Map_size g = 0 \<longrightarrow>
      reduce f g = Inl ReduceOfEmptyArray \<and> reduceRight f g = Inl ReduceOfEmptyArray)
   \<and> (toArray g1 = [1, 2, 3 :: int] \<longrightarrow> reduce (\<lambda>a b i arr. a + b) g1 = Inr 6)
   \<and> (toArray g2 = [''a'', ''b'', ''c''] \<longrightarrow>
        reduceRight (\<lambda>a b i arr. a @ b) g2 = Inr ''cba'')"
proof -
  have "Map_size g = 0 \<longrightarrow>
      reduce f g = Inl ReduceOfEmptyArray \<and> reduceRight f g = Inl ReduceOfEmptyArray"
    by (simp add: Map_size_def reduce_def reduceRight_def Array_reduce_def
        Array_reduceRight_def toArray_def)
  moreover have "toArray g1 = [1, 2, 3 :: int] \<longrightarrow> reduce (\<lambda>a b i arr. a + b) g1 = Inr 6"
    by (simp add: reduce_def Array_reduce_def)
  moreover have "toArray g2 = [''a'', ''b'', ''c''] \<longrightarrow>
      reduceRight (\<lambda>a b i arr. a @ b) g2 = Inr ''cba''"
    by (simp add: reduceRight_def Array_reduceRight_def)
  ultimately show ?thesis by blast
qed

theorem reduce_empty_fails_witness:
  "Map_size ([] :: (string, int) group) = 0
   \<and> reduce (\<lambda>a b i arr. a + b) ([] :: (string, int) group) = Inl ReduceOfEmptyArray
   \<and> reduceRight (\<lambda>a b i arr. a + b) ([] :: (string, int) group) = Inl ReduceOfEmptyArray
   \<and> toArray [(''x'', 1), (''y'', 2), (''z'', 3 :: int)] = [1, 2, 3]
   \<and> reduce (\<lambda>a b i arr. a + b) [(''x'', 1), (''y'', 2), (''z'', 3 :: int)] = Inr 6
   \<and> toArray [(1 :: nat, ''a''), (2, ''b''), (3, ''c'')] = [''a'', ''b'', ''c'']
   \<and> reduceRight (\<lambda>a b i arr. a @ b) [(1 :: nat, ''a''), (2, ''b''), (3, ''c'')] = Inr ''cba''"
proof -
  have s: "Map_size ([] :: (string, int) group) = 0"
    by (simp add: Map_size_def)
  have t1: "toArray [(''x'', 1), (''y'', 2), (''z'', 3 :: int)] = [1, 2, 3]"
    by (simp add: toArray_def)
  have t2: "toArray [(1 :: nat, ''a''), (2, ''b''), (3, ''c'')] = [''a'', ''b'', ''c'']"
    by (simp add: toArray_def)
  show ?thesis
    using s t1 t2
      reduce_empty_fails [of "[] :: (string, int) group" "\<lambda>a b i arr. a + b"
        "[(''x'', 1), (''y'', 2), (''z'', 3 :: int)]" "[(1 :: nat, ''a''), (2, ''b''), (3, ''c'')]"]
    by simp
qed

text \<open>
  C3. On the Group with entries (1, "a"), (2, "b"), (3, "c"): \<^verbatim>\<open>last()\<close> without
  amount returns the first entry, the pair (1, "a"), where the last value "c" is
  expected; \<^verbatim>\<open>first()\<close> returns the pair (1, "a") and not the value "a"; and
  \<^verbatim>\<open>last(0)\<close> returns all three entries, since \<^verbatim>\<open>slice(-0)\<close> is \<^verbatim>\<open>slice(0)\<close>.
\<close>

theorem last_without_amount_returns_first_entry:
  "last_group None [(1::nat, ''a''), (2, ''b''), (3, ''c'')] = Entry (1, ''a'')
   \<and> first None [(1::nat, ''a''), (2, ''b''), (3, ''c'')] = Entry (1, ''a'')
   \<and> last_group (Some 0) [(1::nat, ''a''), (2, ''b''), (3, ''c'')]
       = Object [(1, ''a''), (2, ''b''), (3, ''c'')]"
proof -
  have "last_group None [(1::nat, ''a''), (2, ''b''), (3, ''c'')] = Entry (1, ''a'')"
    by code_simp
  moreover have "first None [(1::nat, ''a''), (2, ''b''), (3, ''c'')] = Entry (1, ''a'')"
    by code_simp
  moreover have "last_group (Some 0) [(1::nat, ''a''), (2, ''b''), (3, ''c'')]
       = Object [(1, ''a''), (2, ''b''), (3, ''c'')]"
    by code_simp
  ultimately show ?thesis by blast
qed

section \<open>Properties of RoleManager\<close>

lemma get_None_iff: "Map_get k g = None \<longleftrightarrow> \<not> Map_has k g"
  by (simp add: Map_get_def Map_has_def map_of_eq_None_iff)

lemma has_after_delete: "\<not> Map_has k (snd (Map_delete k g))"
  by (auto simp: Map_has_def Map_delete_def)

lemma edit_cached:
  "Map_get (id_r role) (cache this) = Some cached \<Longrightarrow>
   edit Role_edit this role options = Role_edit cached options"
  by (simp add: edit_def)

lemma delete_rejected:
  "api_delete (guild_id this) (id_r role) reason = Inl e \<Longrightarrow>
   delete api_delete this role reason = (Inl e, this)"
  by (simp add: delete_def)

section \<open>Claims about RoleManager\<close>

text \<open>
  C8. \<^verbatim>\<open>comparePosition(a, b)\<close> is the absolute value of the difference of the two
  positions, and is never negative.
\<close>

theorem comparePosition_abs:
  "comparePosition a b = \<bar>position a - position b\<bar> \<and> 0 \<le> comparePosition a b"
  by (simp add: comparePosition_def)

text \<open>
  C9. \<^verbatim>\<open>edit\<close> on a role whose identifier is not in the cache fails: the promise
  is rejected with the TypeError of calling \<^verbatim>\<open>.edit\<close> on the undefined result of the
  lookup, and \<^verbatim>\<open>Role.edit\<close> is not called on any entity. In particular, after a
  \<^verbatim>\<open>delete\<close> that was fulfilled, \<^verbatim>\<open>edit\<close> on the same identifier fails so.
\<close>

theorem edit_uncached_fails:
  "(\<not> Map_has (id_r r) (cache m) \<longrightarrow> edit Role_edit m r options = Inl PropertyOfUndefined)
   \<and> (delete api_delete this role reason = (Inr (), this') \<and> id_r role' = id_r role \<longrightarrow>
        edit Role_edit this' role' options = Inl PropertyOfUndefined)"
proof -
  have miss: "edit Role_edit m r options = Inl PropertyOfUndefined"
    if "\<not> Map_has (id_r r) (cache m)" for m :: "'a RoleManager" and r
    using that by (simp add: edit_def get_None_iff [symmetric])
  have "\<not> Map_has (id_r role') (cache this')"
    if "delete api_delete this role reason = (Inr (), this')" "id_r role' = id_r role"
    using that by (auto simp: delete_def has_after_delete split: sum.splits)
  with miss show ?thesis by blast
qed

theorem edit_uncached_fails_witness:
  "\<not> Map_has (id_r \<lparr>id_r = ''42'', position = 1\<rparr>)
       (cache \<lparr>cache = ([] :: (Snowflake, string) group), guild_id = ''9''\<rparr>)
   \<and> edit (\<lambda>cached opts. Inr (cached @ opts)) \<lparr>cache = [], guild_id = ''9''\<rparr>
        \<lparr>id_r = ''42'', position = 1\<rparr> ''!'' = Inl PropertyOfUndefined
   \<and> delete (\<lambda>g r reason. Inr ()) \<lparr>cache = [(''42'', ''Admin'')], guild_id = ''9''\<rparr>
        \<lparr>id_r = ''42'', position = 1\<rparr> None
       = (Inr (), \<lparr>cache = ([] :: (Snowflake, string) group), guild_id = ''9''\<rparr>)
   \<and> edit (\<lambda>cached opts. Inr (cached @ opts)) \<lparr>cache = [], guild_id = ''9''\<rparr>
        \<lparr>id_r = ''42'', position = 5\<rparr> ''!'' = Inl PropertyOfUndefined"
proof -
  have absent: "\<not> Map_has (id_r \<lparr>id_r = ''42'', position = 1\<rparr>)
      (cache \<lparr>cache = ([] :: (Snowflake, string) group), guild_id = ''9''\<rparr>)"
    by (simp add: Map_has_def)
  have deleted: "delete (\<lambda>g r reason. Inr ()) \<lparr>cache = [(''42'', ''Admin'')], guild_id = ''9''\<rparr>
        \<lparr>id_r = ''42'', position = 1\<rparr> None
       = (Inr (), \<lparr>cache = ([] :: (Snowflake, string) group), guild_id = ''9''\<rparr>)"
    by (simp add: delete_def Map_delete_def)
  show ?thesis
    using absent deleted
      edit_uncached_fails [where r = "\<lparr>id_r = ''42'', position = 1\<rparr>"
        and m = "\<lparr>cache = ([] :: (Snowflake, string) group), guild_id = ''9''\<rparr>"
        and Role_edit = "\<lambda>cached opts. Inr (cached @ opts)" and options = "''!''"
        and api_delete = "\<lambda>g r reason. Inr ()"
        and this = "\<lparr>cache = [(''42'', ''Admin'')], guild_id = ''9''\<rparr>"
        and role = "\<lparr>id_r = ''42'', position = 1\<rparr>" and reason = None
        and this' = "\<lparr>cache = [], guild_id = ''9''\<rparr>"
        and role' = "\<lparr>id_r = ''42'', position = 5\<rparr>"]
    by simp
qed

section \<open>Properties of the BasicInteraction constructor\<close>

text \<open>
  What the assignments of the constructor establish: the member, user and message
  fields are absent exactly when the raw sub-payload is, and hold a built entity
  otherwise; the guild field holds the Guild built from the raw guild field.
\<close>

lemma construct_if_present_Inr:
  "construct_if_present new raw = Inr s \<Longrightarrow>
   (raw = None \<longrightarrow> s = None) \<and> (\<forall>j. raw = Some j \<longrightarrow> (\<exists>e. new j = Inr e \<and> s = Some (Entity e)))"
  by (auto simp: construct_if_present_def split: option.splits sum.splits)

lemma assigned_fields_entities:
  assumes "assigned_fields E d = Inr this"
  shows "\<exists>g. Guild_new E (raw_guild d) = Inr g \<and> guild this = Entity g
           \<and> (raw_member d = None \<longrightarrow> member_i this = None)
           \<and> (\<forall>j. raw_member d = Some j \<longrightarrow>
                 (\<exists>e. GuildMember_new E j (Guild_id E g) = Inr e \<and> member_i this = Some (Entity e)))"
    and "raw_user d = None \<longrightarrow> user this = None"
    and "\<forall>j. raw_user d = Some j \<longrightarrow> (\<exists>e. User_new E j = Inr e \<and> user this = Some (Entity e))"
    and "raw_message d = None \<longrightarrow> message this = None"
    and "\<forall>j. raw_message d = Some j \<longrightarrow>
           (\<exists>e. Message_new E j = Inr e \<and> message this = Some (Entity e))"
  using assms
  by (auto simp: assigned_fields_def split: sum.splits dest!: construct_if_present_Inr)

text \<open>
  What \<^verbatim>\<open>Object.assign(this, data)\<close> then leaves: every sub-payload that is present
  in the raw data replaces the entity built from it.
\<close>

lemma constructor_leaves_raw:
  assumes "BasicInteraction_new E d = Inr this"
  shows "member_i this = map_option Raw (raw_member d)"
    and "user this = map_option Raw (raw_user d)"
    and "message this = map_option Raw (raw_message d)"
    and "raw_guild d = Some j \<Longrightarrow> guild this = Raw j"
    and "raw_guild d = None \<Longrightarrow> \<exists>g. Guild_new E None = Inr g \<and> guild this = Entity g"
    and "id_i this = raw_id d" and "type_i this = raw_type d"
proof -
  from assms obtain a where a: "assigned_fields E d = Inr a" and t: "this = Object_assign a d"
    by (auto simp: BasicInteraction_new_def split: sum.splits)
  note f = assigned_fields_entities [OF a]
  show "member_i this = map_option Raw (raw_member d)"
    using f(1) by (cases "raw_member d") (auto simp: t Object_assign_def assign_slot_def)
  show "user this = map_option Raw (raw_user d)"
    using f(2) by (cases "raw_user d") (auto simp: t Object_assign_def assign_slot_def)
  show "message this = map_option Raw (raw_message d)"
    using f(4) by (cases "raw_message d") (auto simp: t Object_assign_def assign_slot_def)
  show "raw_guild d = Some j \<Longrightarrow> guild this = Raw j"
    by (simp add: t Object_assign_def)
  show "raw_guild d = None \<Longrightarrow> \<exists>g. Guild_new E None = Inr g \<and> guild this = Entity g"
    using f(1) by (auto simp: t Object_assign_def)
  have "id_i a = raw_id d" "type_i a = raw_type d"
    using a by (auto simp: assigned_fields_def split: sum.splits)
  then show "id_i this = raw_id d" "type_i this = raw_type d"
    by (auto simp: t Object_assign_def assign_property_def split: option.splits)
qed

lemma infallible_assigned_fields: "\<exists>a. assigned_fields (infallible G gid M U Msg) d = Inr a"
  by (simp add: assigned_fields_def infallible_def construct_if_present_def
      split: option.splits)

lemma infallible_new: "\<exists>this. BasicInteraction_new (infallible G gid M U Msg) d = Inr this"
  by (simp add: BasicInteraction_new_def assigned_fields_def infallible_def
      construct_if_present_def split: option.splits)

section \<open>Claims about BasicInteraction\<close>

text \<open>
  C6. For the payload of an application command whose raw guild is "g" and whose raw
  member is "m", the constructor returns an interaction whose \<^verbatim>\<open>guild\<close> field is the
  raw "g" and whose \<^verbatim>\<open>member\<close> field is the raw "m": the Guild and the GuildMember
  built from them were assigned first and replaced by \<^verbatim>\<open>Object.assign(this, data)\<close>.
\<close>

theorem constructor_keeps_raw_member:
  "assigned_fields example_entities payload_with_member
     = Inr \<lparr> id_i = Some ''1'', application_id = Some ''7'', type_i = Some 2,
             data = Some \<lparr> data_component_type = None, data_type = Some 2,
                           data_target_id = Some ''99'' \<rparr>,
             guild = Entity (''Guild'', Some ''g''), channel_id = None,
             member_i = Some (Entity (''GuildMember'', ''m'')), user = None,
             token = Some ''t'', version = Some 1, message = None, app_permissions = None,
             locale_i = None, guild_locale = None, component_type = None \<rparr>
   \<and> BasicInteraction_new example_entities payload_with_member
     = Inr \<lparr> id_i = Some ''1'', application_id = Some ''7'', type_i = Some 2,
             data = Some \<lparr> data_component_type = None, data_type = Some 2,
                           data_target_id = Some ''99'' \<rparr>,
             guild = Raw ''g'', channel_id = None,
             member_i = Some (Raw ''m''), user = None,
             token = Some ''t'', version = Some 1, message = None, app_permissions = None,
             locale_i = None, guild_locale = None, component_type = None \<rparr>"
proof -
  have a: "assigned_fields example_entities payload_with_member
     = Inr \<lparr> id_i = Some ''1'', application_id = Some ''7'', type_i = Some 2,
             data = Some \<lparr> data_component_type = None, data_type = Some 2,
                           data_target_id = Some ''99'' \<rparr>,
             guild = Entity (''Guild'', Some ''g''), channel_id = None,
             member_i = Some (Entity (''GuildMember'', ''m'')), user = None,
             token = Some ''t'', version = Some 1, message = None, app_permissions = None,
             locale_i = None, guild_locale = None, component_type = None \<rparr>"
    by (simp add: assigned_fields_def construct_if_present_def example_entities_def
        payload_with_member_def)
  then show ?thesis
    by (simp add: BasicInteraction_new_def Object_assign_def assign_property_def
        assign_slot_def payload_with_member_def)
qed

text \<open>
  C7, as stated, fails: for the payload without identifier and primary type the
  constructor returns an interaction, with both fields absent.
\<close>

theorem constructor_accepts_payload_without_id:
  "raw_id payload_without_id_and_type = None
   \<and> raw_type payload_without_id_and_type = None
   \<and> BasicInteraction_new example_entities payload_without_id_and_type
     = Inr \<lparr> id_i = None, application_id = Some ''7'', type_i = None, data = None,
             guild = Entity (''Guild'', None), channel_id = None, member_i = None, user = None,
             token = Some ''t'', version = Some 1, message = None, app_permissions = None,
             locale_i = None, guild_locale = None, component_type = None \<rparr>"
  by (simp add: BasicInteraction_new_def assigned_fields_def Object_assign_def
      construct_if_present_def assign_property_def assign_slot_def example_entities_def
      payload_without_id_and_type_def)

text \<open>
  C7, amended. The constructor validates nothing: with entity constructors that do not
  throw it returns an interaction for every raw payload, and the \<^verbatim>\<open>id\<close> and
  \<^verbatim>\<open>type\<close> of that interaction are the raw ones, absent when the raw payload lacks
  them.
\<close>

theorem constructor_never_rejects:
  "\<exists>this. (BasicInteraction_new (infallible G gid M U Msg) d
             :: 'x + ('j, 'g, 'm, 'u, 'msg) BasicInteraction) = Inr this
          \<and> id_i this = raw_id d \<and> type_i this = raw_type d"
proof -
  obtain this :: "('j, 'g, 'm, 'u, 'msg) BasicInteraction"
    where n: "(BasicInteraction_new (infallible G gid M U Msg) d
                :: 'x + ('j, 'g, 'm, 'u, 'msg) BasicInteraction) = Inr this"
    using infallible_new by blast
  from n constructor_leaves_raw(6,7) [OF n] show ?thesis
    by blast
qed

text \<open>
  C10. \<^verbatim>\<open>isAnySelectMenu()\<close> is true exactly when one of the five select-menu
  predicates is; and when \<^verbatim>\<open>isUserContextMenu()\<close> or \<^verbatim>\<open>isMessageContextMenu()\<close> is
  true, so is \<^verbatim>\<open>isAnyContextMenu()\<close>. This holds whatever numbers the members of
  \<^verbatim>\<open>ComponentTypes\<close> are.
\<close>

theorem any_menu_covers_each_menu:
  "(isAnySelectMenu CT this \<longleftrightarrow>
      isStringSelectMenu CT this \<or> isChannelSelectMenu CT this
      \<or> isMentionableSelectMenu CT this \<or> isRoleSelectMenu CT this \<or> isUserSelectMenu CT this)
   \<and> (isUserContextMenu this \<or> isMessageContextMenu this \<longrightarrow> isAnyContextMenu this)"
proof -
  have "isAnySelectMenu CT this \<longleftrightarrow>
      isStringSelectMenu CT this \<or> isChannelSelectMenu CT this
      \<or> isMentionableSelectMenu CT this \<or> isRoleSelectMenu CT this \<or> isUserSelectMenu CT this"
    by (cases "component_type this")
      (auto simp: isAnySelectMenu_def isStringSelectMenu_def isChannelSelectMenu_def
        isMentionableSelectMenu_def isRoleSelectMenu_def isUserSelectMenu_def)
  moreover have "isUserContextMenu this \<or> isMessageContextMenu this \<longrightarrow> isAnyContextMenu this"
    by (simp add: isUserContextMenu_def isMessageContextMenu_def isAnyContextMenu_def)
  ultimately show ?thesis by blast
qed

theorem any_menu_covers_each_menu_witness:
  "(case BasicInteraction_new example_entities payload_with_member of
      Inl x \<Rightarrow> False
    | Inr this \<Rightarrow> isUserContextMenu this \<and> \<not> isMessageContextMenu this \<and> isAnyContextMenu this
        \<and> \<not> isAnySelectMenu
             \<lparr> Button = 2, StringSelectMenu = 3, TextInput = 4, UserSelectMenu = 5,
               RoleSelectMenu = 6, MentionableSelectMenu = 7, ChannelSelectMenu = 8 \<rparr> this)"
proof -
  obtain this where t: "BasicInteraction_new example_entities payload_with_member = Inr this"
    and d: "data this = Some \<lparr> data_component_type = None, data_type = Some 2,
                               data_target_id = Some ''99'' \<rparr>"
    and c: "component_type this = None"
    by (simp add: BasicInteraction_new_def assigned_fields_def Object_assign_def
        construct_if_present_def assign_property_def assign_slot_def example_entities_def
        payload_with_member_def)
  have u: "isUserContextMenu this"
    by (simp add: isUserContextMenu_def target_id_def truthy_def d ContextMenuTypes_User_def)
  have m: "\<not> isMessageContextMenu this"
    by (simp add: isMessageContextMenu_def target_id_def truthy_def d
        ContextMenuTypes_Message_def)
  have s: "\<not> isStringSelectMenu CT this" "\<not> isChannelSelectMenu CT this"
    "\<not> isMentionableSelectMenu CT this" "\<not> isRoleSelectMenu CT this"
    "\<not> isUserSelectMenu CT this" for CT
    by (simp_all add: c isStringSelectMenu_def isChannelSelectMenu_def
        isMentionableSelectMenu_def isRoleSelectMenu_def isUserSelectMenu_def)
  show ?thesis
    using u m s
      any_menu_covers_each_menu [of "\<lparr> Button = 2, StringSelectMenu = 3, TextInput = 4,
        UserSelectMenu = 5, RoleSelectMenu = 6, MentionableSelectMenu = 7,
        ChannelSelectMenu = 8 \<rparr>" this]
    by (simp add: t)
qed

end
